theory Spec2Isabelle
  imports Complex_Main "HOL-Library.Signed_Division"
begin

section \<open>Date objects\<close>

text \<open>
  The module never builds a date from its parts: it reads a JavaScript \<open>Date\<close> through
  four accessor methods. A date is modelled by what those accessors return, under the
  accessors' own names; whatever else the object carries (local hour, UTC minute, seconds,
  day of the month, ...) lives in the extension of the record.

  A time value is a whole number of milliseconds since the epoch; ECMAScript keeps it
  within \<open>8.64 * 10^15\<close> of zero, so that every time value is a double without
  rounding. The functions below are modelled on valid dates.
\<close>

record date =
  getTime :: int
  getFullYear :: int
  getUTCHours :: int
  getMinutes :: int

text \<open>The range of the time values of ECMAScript.\<close>

definition valid_time :: "'a date_scheme \<Rightarrow> bool" where
  "valid_time date = (\<bar>getTime date\<bar> \<le> 8640000000000000)"

text \<open>
  Components that the module does not read, for the statements that mention them.
\<close>

record date_components = date +
  getHours :: int
  getUTCMinutes :: int
  getSeconds :: int
  getMilliseconds :: int
  getDate :: int

section \<open>Numbers and strings\<close>

text \<open>
  JavaScript numbers are doubles. A double holds every integer up to \<open>2^53\<close>
  (9007199254740992) in absolute value, and from there to \<open>2^54\<close> the even ones.
  The difference of two time values is below \<open>2^54\<close>: when it is above \<open>2^53\<close>
  and odd, the subtraction rounds it to a neighbour, the one that is a multiple of 4.
\<close>

definition round_double :: "int \<Rightarrow> int" where
  "round_double x =
    (let a = \<bar>x\<bar> in
     if a \<le> 9007199254740992 then x
     else sgn x * (2 * (if odd a \<and> odd (a div 2) then a div 2 + 1 else a div 2)))"

text \<open>\<open>x - y\<close> on two time values.\<close>

definition double_minus :: "int \<Rightarrow> int \<Rightarrow> int" where
  "double_minus x y = round_double (x - y)"

text \<open>
  \<open>a % b\<close> takes the sign of the dividend and is exact: it is \<open>smod\<close> on \<open>int\<close>.
  \<open>Math.floor (a / b)\<close> is \<open>div\<close>, which rounds down; for the dividends below
  \<open>2^54\<close> and the three divisors of the module, the rounding of the quotient does not
  reach the next integer.
\<close>

definition digit_char :: "nat \<Rightarrow> char" where
  "digit_char d = ''0123456789'' ! d"

text \<open>
  \<open>n.toString()\<close> for a non-negative integer: its decimal digits, no leading zero.
  JavaScript prints an exponent from \<open>10^21\<close> on; the numbers printed here are parts of a
  difference of two time values, which stays below \<open>1.8 * 10^16\<close>.
\<close>

fun toString :: "nat \<Rightarrow> string" where
  "toString n = (if n < 10 then [digit_char n] else toString (n div 10) @ [digit_char (n mod 10)])"

declare toString.simps [simp del]

text \<open>\<open>str.slice(k)\<close> with \<open>0 \<le> k\<close>: the string without its first \<open>k\<close> characters.\<close>

definition slice :: "string \<Rightarrow> nat \<Rightarrow> string" where
  "slice str k = drop k str"

section \<open>timeSpanToString\<close>

definition timeSpanToString :: "'a date_scheme \<Rightarrow> 'b date_scheme \<Rightarrow> string" where
  "timeSpanToString startDate endDate =
    (let diff = \<bar>double_minus (getTime endDate) (getTime startDate)\<bar>;
         hDiff = diff div 3600000;
         mDiff = (diff smod 3600000) div 60000;
         sDiff = ((diff smod 3600000) smod 60000) div 1000;
         msDiff = ((diff smod 3600000) smod 60000) smod 1000;
         ms = (if msDiff > 0
               then slice (''000'' @ toString (nat msDiff)) (length (toString (nat msDiff)))
               else ''000'');
         s = (if sDiff > 0
              then slice (''00'' @ toString (nat sDiff)) (length (toString (nat sDiff)))
              else ''00'');
         m = (if mDiff > 0
              then slice (''00'' @ toString (nat mDiff)) (length (toString (nat mDiff)))
              else ''00'');
         h = (if hDiff > 0
              then slice (''00'' @ toString (nat hDiff)) (length (toString (nat hDiff)))
              else ''00'')
     in h @ '':'' @ m @ '':'' @ s @ ''.'' @ ms)"

section \<open>isLeapYear\<close>

definition isLeapYear :: "'a date_scheme \<Rightarrow> bool" where
  "isLeapYear date =
    (let year = getFullYear date
     in if (year smod 100 = 0 \<or> year smod 4 \<noteq> 0) \<and> year smod 400 \<noteq> 0 then False else True)"

section \<open>angleBetweenClockHands\<close>

text \<open>
  The angle is computed on JavaScript numbers; the model computes on the reals, with
  \<open>Math.PI\<close> as \<open>pi\<close>, so its results are those of exact arithmetic.
\<close>

definition angleBetweenClockHands :: "'a date_scheme \<Rightarrow> real" where
  "angleBetweenClockHands date =
    (let hour = getUTCHours date;
         minute = getMinutes date;
         hour = (if hour > 12 then hour smod 12 else hour);
         hourAngle = (real_of_int hour + real_of_int minute / 60) * 30;
         minuteAngle = real_of_int minute * 6;
         diff = hourAngle - minuteAngle;
         diff = (if \<bar>diff\<bar> > 180 then \<bar>diff\<bar> - 360 else diff)
     in \<bar>(diff * pi) / 180\<bar>)"

section \<open>Notions of the specification\<close>

text \<open>Padding a decimal numeral with zeros on the left, up to a width; nothing is cut.\<close>

definition zero_pad :: "nat \<Rightarrow> string \<Rightarrow> string" where
  "zero_pad w str = replicate (w - length str) (CHR ''0'') @ str"

text \<open>A span given by its four fields, each padded on its own to its width.\<close>

definition format_fields :: "nat \<Rightarrow> nat \<Rightarrow> nat \<Rightarrow> nat \<Rightarrow> string" where
  "format_fields h m s ms =
    zero_pad 2 (toString h) @ '':'' @ zero_pad 2 (toString m) @ '':'' @
    zero_pad 2 (toString s) @ ''.'' @ zero_pad 3 (toString ms)"

definition is_digit :: "char \<Rightarrow> bool" where
  "is_digit c = (c \<in> set ''0123456789'')"


text \<open>The hour field of a formatted span: what stands before the first colon.\<close>

definition hour_field :: "string \<Rightarrow> string" where
  "hour_field str = takeWhile (\<lambda>c. c \<noteq> CHR '':'') str"

text \<open>The rest of a formatted span, from the first colon on.\<close>

definition after_hour_field :: "string \<Rightarrow> string" where
  "after_hour_field str = dropWhile (\<lambda>c. c \<noteq> CHR '':'') str"

text \<open>
  The hands of a 12-hour dial, in degrees clockwise from the top, both in \<open>[0, 360)\<close>;
  the two angles between them add up to 360 degrees.
\<close>

definition hour_hand :: "int \<Rightarrow> int \<Rightarrow> real" where
  "hour_hand h m = (real_of_int (h mod 12) + real_of_int m / 60) * 30"

definition minute_hand :: "int \<Rightarrow> real" where
  "minute_hand m = real_of_int m * 6"

definition smaller_angle :: "int \<Rightarrow> int \<Rightarrow> real" where
  "smaller_angle h m =
    (let a = \<bar>hour_hand h m - minute_hand m\<bar> in (min a (360 - a) * pi) / 180)"

text \<open>The clock angle with the hour reduced from 12 on, not only above 12.\<close>

definition angle_reducing_from_12 :: "'a date_scheme \<Rightarrow> real" where
  "angle_reducing_from_12 date =
    (let hour = getUTCHours date;
         minute = getMinutes date;
         hour = (if hour \<ge> 12 then hour smod 12 else hour);
         hourAngle = (real_of_int hour + real_of_int minute / 60) * 30;
         minuteAngle = real_of_int minute * 6;
         diff = hourAngle - minuteAngle;
         diff = (if \<bar>diff\<bar> > 180 then \<bar>diff\<bar> - 360 else diff)
     in \<bar>(diff * pi) / 180\<bar>)"

section \<open>Decimal digits and padding by slice\<close>

definition two_digits :: "nat \<Rightarrow> string" where
  "two_digits n = [digit_char (n div 10), digit_char (n mod 10)]"

definition three_digits :: "nat \<Rightarrow> string" where
  "three_digits n = [digit_char (n div 100), digit_char (n div 10 mod 10), digit_char (n mod 10)]"

lemma digit_char_0: "digit_char 0 = CHR ''0''"
  by (simp add: digit_char_def)

lemma is_digit_digit_char: "d < 10 \<Longrightarrow> is_digit (digit_char d)"
  unfolding is_digit_def digit_char_def by (rule nth_mem) simp

lemma toString_lt10: "n < 10 \<Longrightarrow> toString n = [digit_char n]"
  by (simp add: toString.simps)

lemma toString_ge10: "10 \<le> n \<Longrightarrow> toString n = toString (n div 10) @ [digit_char (n mod 10)]"
  by (subst toString.simps) simp

lemma toString_lt100: "10 \<le> n \<Longrightarrow> n < 100 \<Longrightarrow> toString n = two_digits n"
  by (simp add: toString_ge10 toString_lt10 two_digits_def)

lemma toString_ge100:
  assumes "100 \<le> n"
  shows "toString n = toString (n div 100) @ two_digits (n mod 100)"
proof -
  have a: "10 \<le> n" and b: "10 \<le> n div 10" using assms by auto
  have c: "n div 10 div 10 = n div 100" by (simp add: div_mult2_eq)
  have d: "n div 10 mod 10 = n mod 100 div 10"
  proof -
    have "n mod 100 = 10 * (n div 10 mod 10) + n mod 10"
      using mod_mult2_eq [of n 10 10] by simp
    then show ?thesis by simp
  qed
  have e: "n mod 10 = n mod 100 mod 10" by (simp add: mod_mod_cancel)
  show ?thesis
    by (simp add: toString_ge10 [OF a] toString_ge10 [OF b] c d e [symmetric] two_digits_def)
qed

lemma slice_two:
  "slice (''00'' @ toString n) (length (toString n)) = two_digits (n mod 100)"
proof -
  consider "n < 10" | "10 \<le> n" "n < 100" | "100 \<le> n" by linarith
  then show ?thesis
  proof cases
    case 1
    then show ?thesis by (simp add: slice_def toString_lt10 two_digits_def digit_char_0)
  next
    case 2
    then show ?thesis by (simp add: slice_def toString_lt100 two_digits_def)
  next
    case 3
    then show ?thesis by (simp add: slice_def toString_ge100 two_digits_def)
  qed
qed

lemma zero_pad_two: "n < 100 \<Longrightarrow> zero_pad 2 (toString n) = two_digits n"
  by (cases "n < 10") (simp_all add: zero_pad_def toString_lt10 toString_lt100 two_digits_def digit_char_0)

lemma toString_lt1000: "100 \<le> n \<Longrightarrow> n < 1000 \<Longrightarrow> toString n = three_digits n"
proof -
  assume a: "100 \<le> n" and b: "n < 1000"
  have c: "n div 100 < 10" using b by simp
  have d: "n div 10 mod 10 = n mod 100 div 10"
  proof -
    have "n mod 100 = 10 * (n div 10 mod 10) + n mod 10"
      using mod_mult2_eq [of n 10 10] by simp
    then show ?thesis by simp
  qed
  show ?thesis
    by (simp add: toString_ge100 [OF a] toString_lt10 [OF c] two_digits_def three_digits_def d
        mod_mod_cancel)
qed

lemma slice_three:
  "n < 1000 \<Longrightarrow> slice (''000'' @ toString n) (length (toString n)) = three_digits n"
proof -
  assume b: "n < 1000"
  consider "n < 10" | "10 \<le> n" "n < 100" | "100 \<le> n" by linarith
  then show ?thesis
  proof cases
    case 1
    then show ?thesis by (simp add: slice_def toString_lt10 three_digits_def digit_char_0)
  next
    case 2
    then show ?thesis
      by (simp add: slice_def toString_lt100 two_digits_def three_digits_def digit_char_0)
  next
    case 3
    then show ?thesis using b by (simp add: slice_def toString_lt1000 three_digits_def)
  qed
qed

lemma zero_pad_three: "n < 1000 \<Longrightarrow> zero_pad 3 (toString n) = three_digits n"
proof -
  assume b: "n < 1000"
  consider "n < 10" | "10 \<le> n" "n < 100" | "100 \<le> n" by linarith
  then show ?thesis
  proof cases
    case 1
    then show ?thesis
      by (simp add: zero_pad_def toString_lt10 three_digits_def digit_char_0 numeral_2_eq_2)
  next
    case 2
    then show ?thesis
      by (simp add: zero_pad_def toString_lt100 two_digits_def three_digits_def digit_char_0)
  next
    case 3
    then show ?thesis using b by (simp add: zero_pad_def toString_lt1000 three_digits_def)
  qed
qed

text \<open>The padding of one field, whether or not the guard \<open>x > 0\<close> lets it run.\<close>

lemma field_two:
  "0 \<le> x \<Longrightarrow>
   (if x > 0 then slice (''00'' @ toString (nat x)) (length (toString (nat x))) else ''00'')
     = two_digits (nat x mod 100)"
  using slice_two [of "nat x"] by (cases "x = 0") (simp_all add: two_digits_def digit_char_0)

lemma field_three:
  "0 \<le> x \<Longrightarrow> x < 1000 \<Longrightarrow>
   (if x > 0 then slice (''000'' @ toString (nat x)) (length (toString (nat x))) else ''000'')
     = three_digits (nat x)"
  using slice_three [of "nat x"] by (cases "x = 0") (simp_all add: three_digits_def digit_char_0)

lemma timeSpanToString_digits:
  fixes startDate :: "'a date_scheme" and endDate :: "'b date_scheme"
  defines "diff \<equiv> \<bar>double_minus (getTime endDate) (getTime startDate)\<bar>"
  shows "timeSpanToString startDate endDate =
     two_digits (nat (diff div 3600000) mod 100) @ '':'' @
     two_digits (nat (diff mod 3600000 div 60000)) @ '':'' @
     two_digits (nat (diff mod 60000 div 1000)) @ ''.'' @
     three_digits (nat (diff mod 1000))"
proof -
  have d0: "0 \<le> diff" by (simp add: diff_def)
  have r1: "diff smod 3600000 = diff mod 3600000"
    using d0 by (simp add: smod_mod_positive)
  have r2: "(diff mod 3600000) smod 60000 = diff mod 60000"
    by (simp add: smod_mod_positive mod_mod_cancel)
  have r3: "(diff mod 60000) smod 1000 = diff mod 1000"
    by (simp add: smod_mod_positive mod_mod_cancel)
  have h: "0 \<le> diff div 3600000" using d0 by simp
  have m: "0 \<le> diff mod 3600000 div 60000" "diff mod 3600000 div 60000 < 60" by simp_all
  have s: "0 \<le> diff mod 60000 div 1000" "diff mod 60000 div 1000 < 60" by simp_all
  have ms: "0 \<le> diff mod 1000" "diff mod 1000 < 1000" by simp_all
  have m': "nat (diff mod 3600000 div 60000) mod 100 = nat (diff mod 3600000 div 60000)"
    using m by simp
  have s': "nat (diff mod 60000 div 1000) mod 100 = nat (diff mod 60000 div 1000)"
    using s by simp
  show ?thesis
    unfolding timeSpanToString_def Let_def diff_def [symmetric] r1 r2 r3
    by (simp only: field_two [OF h] field_two [OF m(1)] field_two [OF s(1)] field_three [OF ms] m' s')
qed

lemma is_digit_not_colon: "is_digit c \<Longrightarrow> c \<noteq> CHR '':''"
  by (auto simp: is_digit_def)



lemma hour_field_two_digits:
  "k < 100 \<Longrightarrow> hour_field (two_digits k @ '':'' @ rest) = two_digits k"
proof -
  assume k: "k < 100"
  have a: "digit_char (k div 10) \<noteq> CHR '':''"
    using k by (intro is_digit_not_colon is_digit_digit_char) simp
  have b: "digit_char (k mod 10) \<noteq> CHR '':''"
    by (intro is_digit_not_colon is_digit_digit_char) simp
  show ?thesis by (simp add: hour_field_def two_digits_def a b)
qed


lemma timeSpanToString_padded:
  fixes startDate :: "'a date_scheme" and endDate :: "'b date_scheme"
  defines "diff \<equiv> \<bar>double_minus (getTime endDate) (getTime startDate)\<bar>"
  shows "timeSpanToString startDate endDate =
     zero_pad 2 (toString (nat (diff div 3600000 mod 100))) @ '':'' @
     zero_pad 2 (toString (nat (diff mod 3600000 div 60000))) @ '':'' @
     zero_pad 2 (toString (nat (diff mod 60000 div 1000))) @ ''.'' @
     zero_pad 3 (toString (nat (diff mod 1000)))"
proof -
  have d0: "0 \<le> diff" by (simp add: diff_def)
  have h: "nat (diff div 3600000 mod 100) = nat (diff div 3600000) mod 100"
    using d0 by (simp add: nat_mod_distrib)
  have hb: "nat (diff div 3600000) mod 100 < 100" by simp
  have m: "nat (diff mod 3600000 div 60000) < 100" by simp
  have s: "nat (diff mod 60000 div 1000) < 100" by simp
  have ms: "nat (diff mod 1000) < 1000" by simp
  have r: "timeSpanToString startDate endDate =
     two_digits (nat (diff div 3600000) mod 100) @ '':'' @
     two_digits (nat (diff mod 3600000 div 60000)) @ '':'' @
     two_digits (nat (diff mod 60000 div 1000)) @ ''.'' @
     three_digits (nat (diff mod 1000))"
    unfolding diff_def by (rule timeSpanToString_digits)
  show ?thesis
    by (simp only: r h zero_pad_two [OF hb] zero_pad_two [OF m] zero_pad_two [OF s]
        zero_pad_three [OF ms])
qed

lemma replicate_two: "replicate 2 x = [x, x]"
  by (simp add: numeral_2_eq_2)

section \<open>The subtraction of time values\<close>

lemma round_double_minus: "round_double (- x) = - round_double x"
  by (simp add: round_double_def Let_def)

lemma double_minus_abs_commute: "\<bar>double_minus x y\<bar> = \<bar>double_minus y x\<bar>"
proof -
  have "double_minus y x = - double_minus x y"
    using round_double_minus [of "x - y"] by (simp add: double_minus_def)
  then show ?thesis by simp
qed

lemma double_minus_exact:
  "\<bar>x - y\<bar> \<le> 9007199254740992 \<Longrightarrow> double_minus x y = x - y"
  by (simp add: double_minus_def round_double_def)


text \<open>
  Two pairs of valid dates more than \<open>2^53\<close> ms apart: an odd difference is rounded
  before it is split into fields.
\<close>

lemma timeSpanToString_rounded:
  "timeSpanToString \<lparr>getTime = - 4503599627370497, getFullYear = - 140744, getUTCHours = 7, getMinutes = 30\<rparr>
      \<lparr>getTime = 4503599627370496, getFullYear = 144683, getUTCHours = 16, getMinutes = 29\<rparr> = ''92:59:00.992''"
  "timeSpanToString \<lparr>getTime = - 8640000000000000, getFullYear = - 271821, getUTCHours = 0, getMinutes = 0\<rparr>
      \<lparr>getTime = 8639999999999999, getFullYear = 275760, getUTCHours = 23, getMinutes = 59\<rparr> = ''00:00:00.000''"
  by (simp_all add: timeSpanToString_def double_minus_def round_double_def slice_def
      toString.simps digit_char_def)

lemma after_hour_field_two_digits:
  "k < 100 \<Longrightarrow> after_hour_field (two_digits k @ '':'' @ rest) = '':'' @ rest"
proof -
  assume k: "k < 100"
  have a: "digit_char (k div 10) \<noteq> CHR '':''"
    using k by (intro is_digit_not_colon is_digit_digit_char) simp
  have b: "digit_char (k mod 10) \<noteq> CHR '':''"
    by (intro is_digit_not_colon is_digit_digit_char) simp
  show ?thesis by (simp add: after_hour_field_def two_digits_def a b)
qed

section \<open>Properties of timeSpanToString\<close>

text \<open>
  Claim C4. \<open>timeSpanToString\<close> is symmetric in its two arguments: swapping the start
  and the end date gives the same string, since only the absolute value of the difference
  of the two time values is used.
\<close>

theorem timeSpanToString_symmetric:
  "timeSpanToString a b = timeSpanToString b a"
  by (simp only: timeSpanToString_def double_minus_abs_commute [of "getTime a" "getTime b"])

theorem timeSpanToString_symmetric_witness:
  "timeSpanToString \<lparr>getTime = 946720800000, getFullYear = 2000, getUTCHours = 10, getMinutes = 0\<rparr>
       \<lparr>getTime = 946724400000, getFullYear = 2000, getUTCHours = 11, getMinutes = 0\<rparr> = ''01:00:00.000'' \<and>
   timeSpanToString \<lparr>getTime = 946724400000, getFullYear = 2000, getUTCHours = 11, getMinutes = 0\<rparr>
       \<lparr>getTime = 946720800000, getFullYear = 2000, getUTCHours = 10, getMinutes = 0\<rparr> = ''01:00:00.000''"
  using timeSpanToString_symmetric
    [of "\<lparr>getTime = 946720800000, getFullYear = 2000, getUTCHours = 10, getMinutes = 0\<rparr>"
        "\<lparr>getTime = 946724400000, getFullYear = 2000, getUTCHours = 11, getMinutes = 0\<rparr>"]
  by (simp add: timeSpanToString_def double_minus_def round_double_def slice_def toString.simps
      digit_char_def)



text \<open>
  Claim C1. The claim asks for the full hour count in the hour field from 100 hours on.
  The code does not give it: at a span of exactly 100 hours it returns
  \<open>00:00:00.000\<close>, the string of the empty span; the hour field is \<open>00\<close>, where the
  decimal hour count is \<open>100\<close>.
\<close>

theorem timeSpanToString_hundred_hours:
  "360000000 \<le> \<bar>getTime \<lparr>getTime = 360000000, getFullYear = 1970, getUTCHours = 4, getMinutes = 0\<rparr>
      - getTime \<lparr>getTime = 0, getFullYear = 1970, getUTCHours = 0, getMinutes = 0\<rparr>\<bar> \<and>
   timeSpanToString \<lparr>getTime = 0, getFullYear = 1970, getUTCHours = 0, getMinutes = 0\<rparr>
      \<lparr>getTime = 360000000, getFullYear = 1970, getUTCHours = 4, getMinutes = 0\<rparr> = ''00:00:00.000'' \<and>
   timeSpanToString \<lparr>getTime = 0, getFullYear = 1970, getUTCHours = 0, getMinutes = 0\<rparr>
      \<lparr>getTime = 0, getFullYear = 1970, getUTCHours = 0, getMinutes = 0\<rparr> = ''00:00:00.000'' \<and>
   hour_field (timeSpanToString \<lparr>getTime = 0, getFullYear = 1970, getUTCHours = 0, getMinutes = 0\<rparr>
      \<lparr>getTime = 360000000, getFullYear = 1970, getUTCHours = 4, getMinutes = 0\<rparr>) = ''00'' \<and>
   toString (nat (\<bar>getTime \<lparr>getTime = 360000000, getFullYear = 1970, getUTCHours = 4, getMinutes = 0\<rparr>
      - getTime \<lparr>getTime = 0, getFullYear = 1970, getUTCHours = 0, getMinutes = 0\<rparr>\<bar> div 3600000)) = ''100''"
  by (simp add: timeSpanToString_def double_minus_def round_double_def slice_def hour_field_def
      toString.simps digit_char_def)

text \<open>
  Claim C3, as amended. Let \<open>diff\<close> be the absolute difference of the time values of two
  valid dates. When \<open>diff\<close> is at most \<open>2^53\<close> ms, what \<open>timeSpanToString\<close> returns
  after the hour field is a colon, the minutes \<open>diff mod 3600000 div 60000\<close>, a colon,
  the seconds \<open>diff mod 60000 div 1000\<close>, a dot and the milliseconds \<open>diff mod 1000\<close>,
  each padded with zeros on its own (two digits for minutes and seconds, three for
  milliseconds). When \<open>diff\<close> is below 100 hours, the hour field is the hour count
  \<open>diff div 3600000\<close> padded to two digits, and the result is these four fields. A zero
  field is all zeros. A span of one hour gives \<open>01:00:00.000\<close>, of 30 minutes
  \<open>00:30:00.000\<close>, of 20 seconds \<open>00:00:20.000\<close>, of 250 ms \<open>00:00:00.250\<close>, and of
  5 h 20 min 10.453 s \<open>05:20:10.453\<close>. Nothing is said of the hour field from 100
  hours on.
\<close>

theorem timeSpanToString_fields:
  fixes startDate :: "'a date_scheme" and endDate :: "'b date_scheme"
  assumes "valid_time startDate" and "valid_time endDate"
  shows "(\<bar>getTime endDate - getTime startDate\<bar> \<le> 9007199254740992 \<longrightarrow>
      after_hour_field (timeSpanToString startDate endDate) =
        '':'' @ zero_pad 2 (toString (nat (\<bar>getTime endDate - getTime startDate\<bar> mod 3600000 div 60000)))
        @ '':'' @ zero_pad 2 (toString (nat (\<bar>getTime endDate - getTime startDate\<bar> mod 60000 div 1000)))
        @ ''.'' @ zero_pad 3 (toString (nat (\<bar>getTime endDate - getTime startDate\<bar> mod 1000)))) \<and>
    (\<bar>getTime endDate - getTime startDate\<bar> < 360000000 \<longrightarrow>
      timeSpanToString startDate endDate =
        format_fields (nat (\<bar>getTime endDate - getTime startDate\<bar> div 3600000))
          (nat (\<bar>getTime endDate - getTime startDate\<bar> mod 3600000 div 60000))
          (nat (\<bar>getTime endDate - getTime startDate\<bar> mod 60000 div 1000))
          (nat (\<bar>getTime endDate - getTime startDate\<bar> mod 1000))) \<and>
    (\<bar>getTime endDate - getTime startDate\<bar> = 0 \<longrightarrow>
      timeSpanToString startDate endDate = ''00:00:00.000'') \<and>
    (\<bar>getTime endDate - getTime startDate\<bar> = 3600000 \<longrightarrow>
      timeSpanToString startDate endDate = ''01:00:00.000'') \<and>
    (\<bar>getTime endDate - getTime startDate\<bar> = 1800000 \<longrightarrow>
      timeSpanToString startDate endDate = ''00:30:00.000'') \<and>
    (\<bar>getTime endDate - getTime startDate\<bar> = 20000 \<longrightarrow>
      timeSpanToString startDate endDate = ''00:00:20.000'') \<and>
    (\<bar>getTime endDate - getTime startDate\<bar> = 250 \<longrightarrow>
      timeSpanToString startDate endDate = ''00:00:00.250'') \<and>
    (\<bar>getTime endDate - getTime startDate\<bar> = 19210453 \<longrightarrow>
      timeSpanToString startDate endDate = ''05:20:10.453'')"
proof -
  define diff where "diff = \<bar>getTime endDate - getTime startDate\<bar>"
  have d0: "0 \<le> diff" by (simp add: diff_def)
  let ?r = "timeSpanToString startDate endDate"
  have same: "\<bar>double_minus (getTime endDate) (getTime startDate)\<bar> = diff"
    if "diff \<le> 9007199254740992"
    using that double_minus_exact [of "getTime endDate" "getTime startDate"]
    by (simp add: diff_def)
  have dg: "?r = two_digits (nat (diff div 3600000) mod 100) @ '':'' @
      two_digits (nat (diff mod 3600000 div 60000)) @ '':'' @
      two_digits (nat (diff mod 60000 div 1000)) @ ''.'' @
      three_digits (nat (diff mod 1000))" if "diff \<le> 9007199254740992"
    using timeSpanToString_digits [of startDate endDate] unfolding same [OF that] .
  have g: "?r = format_fields (nat (diff div 3600000 mod 100)) (nat (diff mod 3600000 div 60000))
      (nat (diff mod 60000 div 1000)) (nat (diff mod 1000))" if "diff \<le> 9007199254740992"
    using timeSpanToString_padded [of startDate endDate]
    unfolding same [OF that] format_fields_def .
  have rest: "after_hour_field ?r =
      '':'' @ zero_pad 2 (toString (nat (diff mod 3600000 div 60000)))
      @ '':'' @ zero_pad 2 (toString (nat (diff mod 60000 div 1000)))
      @ ''.'' @ zero_pad 3 (toString (nat (diff mod 1000)))" if b: "diff \<le> 9007199254740992"
  proof -
    have hb: "nat (diff div 3600000) mod 100 < 100" by simp
    have m: "nat (diff mod 3600000 div 60000) < 100" by simp
    have s: "nat (diff mod 60000 div 1000) < 100" by simp
    have ms: "nat (diff mod 1000) < 1000" by simp
    show ?thesis
      unfolding dg [OF b] after_hour_field_two_digits [OF hb]
      by (simp only: zero_pad_two [OF m] zero_pad_two [OF s] zero_pad_three [OF ms])
  qed
  have small: "?r = format_fields (nat (diff div 3600000)) (nat (diff mod 3600000 div 60000))
      (nat (diff mod 60000 div 1000)) (nat (diff mod 1000))" if "diff < 360000000"
  proof -
    have b: "diff \<le> 9007199254740992" using that by simp
    have "diff div 3600000 < 100" using that by simp
    moreover have "0 \<le> diff div 3600000" using d0 by simp
    ultimately have "diff div 3600000 mod 100 = diff div 3600000" by simp
    with g [OF b] show ?thesis by simp
  qed
  have e0: "?r = ''00:00:00.000''" if "diff = 0"
    unfolding small [unfolded that, simplified] that
    by (simp add: format_fields_def zero_pad_def toString.simps digit_char_def replicate_two)
  have e1: "?r = ''01:00:00.000''" if "diff = 3600000"
    unfolding small [unfolded that, simplified] that
    by (simp add: format_fields_def zero_pad_def toString.simps digit_char_def replicate_two)
  have e2: "?r = ''00:30:00.000''" if "diff = 1800000"
    unfolding small [unfolded that, simplified] that
    by (simp add: format_fields_def zero_pad_def toString.simps digit_char_def replicate_two)
  have e3: "?r = ''00:00:20.000''" if "diff = 20000"
    unfolding small [unfolded that, simplified] that
    by (simp add: format_fields_def zero_pad_def toString.simps digit_char_def replicate_two)
  have e4: "?r = ''00:00:00.250''" if "diff = 250"
    unfolding small [unfolded that, simplified] that
    by (simp add: format_fields_def zero_pad_def toString.simps digit_char_def replicate_two)
  have e5: "?r = ''05:20:10.453''" if "diff = 19210453"
    unfolding small [unfolded that, simplified] that
    by (simp add: format_fields_def zero_pad_def toString.simps digit_char_def replicate_two)
  show ?thesis using rest small e0 e1 e2 e3 e4 e5 unfolding diff_def by blast
qed

theorem timeSpanToString_fields_witness:
  "valid_time \<lparr>getTime = 949399200000, getFullYear = 2000, getUTCHours = 10, getMinutes = 0\<rparr> \<and>
   valid_time \<lparr>getTime = 949418410453, getFullYear = 2000, getUTCHours = 15, getMinutes = 20\<rparr> \<and>
   \<bar>getTime \<lparr>getTime = 949418410453, getFullYear = 2000, getUTCHours = 15, getMinutes = 20\<rparr>
      - getTime \<lparr>getTime = 949399200000, getFullYear = 2000, getUTCHours = 10, getMinutes = 0\<rparr>\<bar> = 19210453 \<and>
   timeSpanToString \<lparr>getTime = 949399200000, getFullYear = 2000, getUTCHours = 10, getMinutes = 0\<rparr>
      \<lparr>getTime = 949418410453, getFullYear = 2000, getUTCHours = 15, getMinutes = 20\<rparr> = ''05:20:10.453''"
proof -
  let ?a = "\<lparr>getTime = 949399200000, getFullYear = 2000, getUTCHours = 10, getMinutes = 0\<rparr>"
  let ?b = "\<lparr>getTime = 949418410453, getFullYear = 2000, getUTCHours = 15, getMinutes = 20\<rparr>"
  have v: "valid_time ?a" "valid_time ?b" by (simp_all add: valid_time_def)
  have d: "\<bar>getTime ?b - getTime ?a\<bar> = 19210453" by simp
  from v d timeSpanToString_fields [OF v] show ?thesis by blast
qed

text \<open>
  Against C3 as stated: a span of 123 h 4 min 5.006 s between two valid dates is rendered
  \<open>23:04:05.006\<close>, where the four padded fields of the statement give
  \<open>123:04:05.006\<close>.
\<close>

theorem timeSpanToString_fields_counterexample:
  "valid_time \<lparr>getTime = 0, getFullYear = 1970, getUTCHours = 0, getMinutes = 0\<rparr> \<and>
   valid_time \<lparr>getTime = 443045006, getFullYear = 1970, getUTCHours = 3, getMinutes = 4\<rparr> \<and>
   timeSpanToString \<lparr>getTime = 0, getFullYear = 1970, getUTCHours = 0, getMinutes = 0\<rparr>
      \<lparr>getTime = 443045006, getFullYear = 1970, getUTCHours = 3, getMinutes = 4\<rparr> = ''23:04:05.006'' \<and>
   format_fields (nat (\<bar>443045006 - 0\<bar> div 3600000)) (nat (\<bar>443045006 - 0\<bar> mod 3600000 div 60000))
      (nat (\<bar>443045006 - 0\<bar> mod 60000 div 1000)) (nat (\<bar>443045006 - 0\<bar> mod 1000)) = ''123:04:05.006''"
  by (simp add: valid_time_def timeSpanToString_def double_minus_def round_double_def slice_def
      format_fields_def zero_pad_def toString.simps digit_char_def replicate_two)

section \<open>Properties of isLeapYear\<close>

lemma smod_eq_0_iff_mod: "((y::int) smod k = 0) = (y mod k = 0)"
  by (auto simp: signed_modulo_int_def sgn_if mod_eq_0_iff_dvd)

text \<open>
  Claim C2. \<open>isLeapYear\<close> returns true exactly when the year \<open>y\<close> of its argument
  satisfies: \<open>y\<close> is a multiple of 4 and not of 100, or \<open>y\<close> is a multiple of 400;
  this holds for the remainder of JavaScript as for the mathematical one. The years 1900,
  2001 and 2015 give false, the years 2000 and 2012 give true.
\<close>

theorem isLeapYear_iff:
  fixes date :: "'a date_scheme"
  shows "isLeapYear date =
      ((getFullYear date mod 4 = 0 \<and> getFullYear date mod 100 \<noteq> 0) \<or> getFullYear date mod 400 = 0) \<and>
    isLeapYear date =
      ((getFullYear date smod 4 = 0 \<and> getFullYear date smod 100 \<noteq> 0) \<or>
        getFullYear date smod 400 = 0) \<and>
    (getFullYear date = 1900 \<longrightarrow> \<not> isLeapYear date) \<and>
    (getFullYear date = 2000 \<longrightarrow> isLeapYear date) \<and>
    (getFullYear date = 2001 \<longrightarrow> \<not> isLeapYear date) \<and>
    (getFullYear date = 2012 \<longrightarrow> isLeapYear date) \<and>
    (getFullYear date = 2015 \<longrightarrow> \<not> isLeapYear date)"
proof -
  have a: "isLeapYear date =
      ((getFullYear date smod 4 = 0 \<and> getFullYear date smod 100 \<noteq> 0) \<or>
        getFullYear date smod 400 = 0)"
    by (auto simp: isLeapYear_def Let_def)
  have b: "isLeapYear date =
      ((getFullYear date mod 4 = 0 \<and> getFullYear date mod 100 \<noteq> 0) \<or> getFullYear date mod 400 = 0)"
    unfolding a smod_eq_0_iff_mod by (rule refl)
  have c: "\<not> isLeapYear date" if "getFullYear date = 1900" unfolding b that by simp
  have d: "isLeapYear date" if "getFullYear date = 2000" unfolding b that by simp
  have e: "\<not> isLeapYear date" if "getFullYear date = 2001" unfolding b that by simp
  have f: "isLeapYear date" if "getFullYear date = 2012" unfolding b that by simp
  have g: "\<not> isLeapYear date" if "getFullYear date = 2015" unfolding b that by simp
  show ?thesis using a b c d e f g by blast
qed

theorem isLeapYear_iff_witness:
  "getFullYear \<lparr>getTime = -2206310400000, getFullYear = 1900, getUTCHours = 0, getMinutes = 0\<rparr> = 1900 \<and>
   \<not> isLeapYear \<lparr>getTime = -2206310400000, getFullYear = 1900, getUTCHours = 0, getMinutes = 0\<rparr>"
proof -
  let ?d = "\<lparr>getTime = -2206310400000, getFullYear = 1900, getUTCHours = 0, getMinutes = 0\<rparr>"
  have y: "getFullYear ?d = 1900" by simp
  with isLeapYear_iff [of ?d] show ?thesis by blast
qed

section \<open>Properties of angleBetweenClockHands\<close>

text \<open>
  Claim C7. \<open>angleBetweenClockHands\<close> reads only the UTC hour and the local minute of
  its argument: two dates that agree on both give the same angle, whatever their other
  components are.
\<close>

theorem angle_reads_hour_and_minute:
  fixes a :: "'a date_scheme" and b :: "'b date_scheme"
  assumes "getUTCHours a = getUTCHours b" and "getMinutes a = getMinutes b"
  shows "angleBetweenClockHands a = angleBetweenClockHands b"
  by (simp add: angleBetweenClockHands_def assms)

theorem angle_reads_hour_and_minute_witness:
  "getUTCHours \<lparr>getTime = 1459825200000, getFullYear = 2016, getUTCHours = 3, getMinutes = 30,
      getHours = 8, getUTCMinutes = 0, getSeconds = 0, getMilliseconds = 0, getDate = 5\<rparr> =
   getUTCHours \<lparr>getTime = 946697445123, getFullYear = 2000, getUTCHours = 3, getMinutes = 30,
      getHours = 3, getUTCMinutes = 30, getSeconds = 45, getMilliseconds = 123, getDate = 1\<rparr> \<and>
   getMinutes \<lparr>getTime = 1459825200000, getFullYear = 2016, getUTCHours = 3, getMinutes = 30,
      getHours = 8, getUTCMinutes = 0, getSeconds = 0, getMilliseconds = 0, getDate = 5\<rparr> =
   getMinutes \<lparr>getTime = 946697445123, getFullYear = 2000, getUTCHours = 3, getMinutes = 30,
      getHours = 3, getUTCMinutes = 30, getSeconds = 45, getMilliseconds = 123, getDate = 1\<rparr> \<and>
   angleBetweenClockHands \<lparr>getTime = 1459825200000, getFullYear = 2016, getUTCHours = 3,
      getMinutes = 30, getHours = 8, getUTCMinutes = 0, getSeconds = 0, getMilliseconds = 0,
      getDate = 5\<rparr> =
   angleBetweenClockHands \<lparr>getTime = 946697445123, getFullYear = 2000, getUTCHours = 3,
      getMinutes = 30, getHours = 3, getUTCMinutes = 30, getSeconds = 45, getMilliseconds = 123,
      getDate = 1\<rparr>"
proof -
  let ?a = "\<lparr>getTime = 1459825200000, getFullYear = 2016, getUTCHours = 3, getMinutes = 30,
      getHours = 8, getUTCMinutes = 0, getSeconds = 0, getMilliseconds = 0, getDate = 5\<rparr>"
  let ?b = "\<lparr>getTime = 946697445123, getFullYear = 2000, getUTCHours = 3, getMinutes = 30,
      getHours = 3, getUTCMinutes = 30, getSeconds = 45, getMilliseconds = 123, getDate = 1\<rparr>"
  have h: "getUTCHours ?a = getUTCHours ?b" by simp
  have m: "getMinutes ?a = getMinutes ?b" by simp
  from h m angle_reads_hour_and_minute [OF h m] show ?thesis by blast
qed

lemma fold_abs:
  fixes x :: real
  assumes "\<bar>x\<bar> \<le> 360"
  shows "\<bar>((if \<bar>x\<bar> > 180 then \<bar>x\<bar> - 360 else x) * pi) / 180\<bar> = (min \<bar>x\<bar> (360 - \<bar>x\<bar>) * pi) / 180"
proof -
  have "\<bar>(if \<bar>x\<bar> > 180 then \<bar>x\<bar> - 360 else x)\<bar> = min \<bar>x\<bar> (360 - \<bar>x\<bar>)"
    using assms by (simp add: min_def abs_if split: if_splits)
  then show ?thesis by (simp add: abs_mult)
qed

lemma angle_unfold:
  "angleBetweenClockHands date =
    (let x = (real_of_int (if getUTCHours date > 12 then getUTCHours date smod 12 else getUTCHours date)
              + real_of_int (getMinutes date) / 60) * 30 - real_of_int (getMinutes date) * 6
     in \<bar>((if \<bar>x\<bar> > 180 then \<bar>x\<bar> - 360 else x) * pi) / 180\<bar>)"
  by (simp add: angleBetweenClockHands_def Let_def)

lemma reduced_hour:
  "0 \<le> h \<Longrightarrow> h \<le> 23 \<Longrightarrow>
   (if h > 12 then h smod 12 else h) = (if h = 12 then 12 else h mod (12::int))"
  by (simp add: smod_mod_positive)

lemma min_pi_range:
  fixes a :: real
  assumes "0 \<le> a" and "a \<le> 360"
  shows "0 \<le> (min a (360 - a) * pi) / 180 \<and> (min a (360 - a) * pi) / 180 \<le> pi"
proof -
  have lo: "0 \<le> min a (360 - a)" using assms by simp
  have hi: "min a (360 - a) \<le> 180" by (simp add: min_def)
  have "min a (360 - a) * pi \<le> 180 * pi"
    using hi by (rule mult_right_mono) simp
  with lo show ?thesis by simp
qed

lemma hands_apart:
  assumes "0 \<le> m" and "m \<le> 59"
  shows "\<bar>hour_hand h m - minute_hand m\<bar> \<le> 360"
proof -
  have r: "0 \<le> real_of_int (h mod 12)" "real_of_int (h mod 12) \<le> 11"
  proof -
    have "0 \<le> h mod 12" "h mod 12 \<le> 11" by simp_all
    then show "0 \<le> real_of_int (h mod 12)" "real_of_int (h mod 12) \<le> 11" by simp_all
  qed
  have m: "0 \<le> real_of_int m" "real_of_int m \<le> 59" using assms by simp_all
  have "hour_hand h m - minute_hand m = 30 * real_of_int (h mod 12) - 11 / 2 * real_of_int m"
    by (simp add: hour_hand_def minute_hand_def algebra_simps)
  with r m show ?thesis by (simp add: abs_le_iff)
qed

lemma angle_smaller:
  fixes date :: "'a date_scheme"
  assumes "0 \<le> getUTCHours date" and "getUTCHours date \<le> 23"
    and "0 \<le> getMinutes date" and "getMinutes date \<le> 59"
  shows "angleBetweenClockHands date = smaller_angle (getUTCHours date) (getMinutes date)"
proof -
  define h where "h = getUTCHours date"
  define m where "m = getMinutes date"
  define M where "M = real_of_int m"
  define \<delta> where "\<delta> = hour_hand h m - minute_hand m"
  define H where "H = (if h > 12 then h smod 12 else h)"
  define X where "X = (real_of_int H + M / 60) * 30 - M * 6"
  have hb: "0 \<le> h" "h \<le> 23" and mb: "0 \<le> m" "m \<le> 59"
    using assms by (simp_all add: h_def m_def)
  have Mb: "0 \<le> M" "M \<le> 59" using mb by (simp_all add: M_def)
  have Hval: "H = (if h = 12 then 12 else h mod 12)"
    unfolding H_def using hb by (rule reduced_hour)
  have \<delta>b: "\<bar>\<delta>\<bar> \<le> 360" unfolding \<delta>_def using mb by (rule hands_apart)
  have ang: "angleBetweenClockHands date = \<bar>((if \<bar>X\<bar> > 180 then \<bar>X\<bar> - 360 else X) * pi) / 180\<bar>"
    by (simp add: angle_unfold X_def H_def h_def m_def M_def Let_def)
  have sm: "smaller_angle h m = (min \<bar>\<delta>\<bar> (360 - \<bar>\<delta>\<bar>) * pi) / 180"
    by (simp add: smaller_angle_def \<delta>_def Let_def)
  have "\<bar>((if \<bar>X\<bar> > 180 then \<bar>X\<bar> - 360 else X) * pi) / 180\<bar> = (min \<bar>\<delta>\<bar> (360 - \<bar>\<delta>\<bar>) * pi) / 180"
  proof (cases "h = 12")
    case True
    have d: "\<delta> = - (11 / 2) * M"
      by (simp add: \<delta>_def hour_hand_def minute_hand_def True M_def algebra_simps)
    have x: "X = 360 + \<delta>"
      by (simp add: X_def Hval True d algebra_simps)
    have d0: "\<delta> \<le> 0" "- 360 \<le> \<delta>" using Mb d by simp_all
    have ax: "\<bar>X\<bar> = 360 - \<bar>\<delta>\<bar>" using d0 x by simp
    have xb: "\<bar>X\<bar> \<le> 360" using ax by simp
    have e: "min \<bar>X\<bar> (360 - \<bar>X\<bar>) = min \<bar>\<delta>\<bar> (360 - \<bar>\<delta>\<bar>)"
      unfolding ax by (simp add: min.commute)
    show ?thesis unfolding fold_abs [OF xb] e by (rule refl)
  next
    case False
    have xe: "X = \<delta>"
      by (simp add: X_def Hval False \<delta>_def hour_hand_def minute_hand_def M_def)
    show ?thesis unfolding xe by (rule fold_abs [OF \<delta>b])
  qed
  with ang sm show ?thesis by (simp add: h_def m_def)
qed

lemma angle_reducing_smaller:
  fixes date :: "'a date_scheme"
  assumes "0 \<le> getUTCHours date" and "getUTCHours date \<le> 23"
    and "0 \<le> getMinutes date" and "getMinutes date \<le> 59"
  shows "angle_reducing_from_12 date = smaller_angle (getUTCHours date) (getMinutes date)"
proof -
  define h where "h = getUTCHours date"
  define m where "m = getMinutes date"
  define \<delta> where "\<delta> = hour_hand h m - minute_hand m"
  have hb: "0 \<le> h" "h \<le> 23" and mb: "0 \<le> m" "m \<le> 59"
    using assms by (simp_all add: h_def m_def)
  have H: "(if h \<ge> 12 then h smod 12 else h) = h mod 12"
    using hb by (simp add: smod_mod_positive)
  have \<delta>b: "\<bar>\<delta>\<bar> \<le> 360" unfolding \<delta>_def using mb by (rule hands_apart)
  have "angle_reducing_from_12 date =
      \<bar>((if \<bar>\<delta>\<bar> > 180 then \<bar>\<delta>\<bar> - 360 else \<delta>) * pi) / 180\<bar>"
    unfolding angle_reducing_from_12_def Let_def h_def [symmetric] m_def [symmetric] H
    by (simp add: \<delta>_def hour_hand_def minute_hand_def)
  also have "\<dots> = (min \<bar>\<delta>\<bar> (360 - \<bar>\<delta>\<bar>) * pi) / 180" by (rule fold_abs [OF \<delta>b])
  also have "\<dots> = smaller_angle h m" by (simp add: smaller_angle_def \<delta>_def Let_def)
  finally show ?thesis by (simp add: h_def m_def)
qed

lemma smaller_angle_plus_12: "smaller_angle (h + 12) m = smaller_angle h m"
  by (simp add: smaller_angle_def hour_hand_def)

text \<open>
  Claim C5. For a date whose UTC hour is within 0..23 and whose minute is within 0..59,
  the angle returned lies between 0 and \<open>pi\<close>, and it is the smaller of the two angles
  between the hour hand and the minute hand.
\<close>

theorem angle_in_range:
  fixes date :: "'a date_scheme"
  assumes "0 \<le> getUTCHours date" and "getUTCHours date \<le> 23"
    and "0 \<le> getMinutes date" and "getMinutes date \<le> 59"
  shows "0 \<le> angleBetweenClockHands date \<and> angleBetweenClockHands date \<le> pi \<and>
    angleBetweenClockHands date = smaller_angle (getUTCHours date) (getMinutes date)"
proof -
  let ?a = "\<bar>hour_hand (getUTCHours date) (getMinutes date) - minute_hand (getMinutes date)\<bar>"
  have eq: "angleBetweenClockHands date = smaller_angle (getUTCHours date) (getMinutes date)"
    using assms by (rule angle_smaller)
  have "?a \<le> 360" using assms(3,4) by (rule hands_apart)
  then have "0 \<le> (min ?a (360 - ?a) * pi) / 180 \<and> (min ?a (360 - ?a) * pi) / 180 \<le> pi"
    by (intro min_pi_range) simp_all
  then have "0 \<le> smaller_angle (getUTCHours date) (getMinutes date) \<and>
      smaller_angle (getUTCHours date) (getMinutes date) \<le> pi"
    by (simp add: smaller_angle_def Let_def)
  with eq show ?thesis by simp
qed

theorem angle_in_range_witness:
  "0 \<le> getUTCHours \<lparr>getTime = 1459859400000, getFullYear = 2016, getUTCHours = 12, getMinutes = 30\<rparr> \<and>
   getUTCHours \<lparr>getTime = 1459859400000, getFullYear = 2016, getUTCHours = 12, getMinutes = 30\<rparr> \<le> 23 \<and>
   0 \<le> getMinutes \<lparr>getTime = 1459859400000, getFullYear = 2016, getUTCHours = 12, getMinutes = 30\<rparr> \<and>
   getMinutes \<lparr>getTime = 1459859400000, getFullYear = 2016, getUTCHours = 12, getMinutes = 30\<rparr> \<le> 59 \<and>
   0 \<le> angleBetweenClockHands \<lparr>getTime = 1459859400000, getFullYear = 2016, getUTCHours = 12, getMinutes = 30\<rparr> \<and>
   angleBetweenClockHands \<lparr>getTime = 1459859400000, getFullYear = 2016, getUTCHours = 12, getMinutes = 30\<rparr> \<le> pi \<and>
   angleBetweenClockHands \<lparr>getTime = 1459859400000, getFullYear = 2016, getUTCHours = 12, getMinutes = 30\<rparr>
     = smaller_angle 12 30"
  using angle_in_range
    [of "\<lparr>getTime = 1459859400000, getFullYear = 2016, getUTCHours = 12, getMinutes = 30\<rparr>"]
  by simp

text \<open>
  Claim C8. On dates whose UTC hour and minute are (0, 0), (3, 0), (18, 0) and (21, 0),
  the local minute being the UTC minute, \<open>angleBetweenClockHands\<close> returns 0,
  \<open>pi / 2\<close>, \<open>pi\<close> and \<open>pi / 2\<close>.
\<close>

theorem angle_examples:
  fixes date :: "'a date_components_scheme"
  assumes "getUTCMinutes date = 0" and "getMinutes date = getUTCMinutes date"
  shows "(getUTCHours date = 0 \<longrightarrow> angleBetweenClockHands date = 0) \<and>
    (getUTCHours date = 3 \<longrightarrow> angleBetweenClockHands date = pi / 2) \<and>
    (getUTCHours date = 18 \<longrightarrow> angleBetweenClockHands date = pi) \<and>
    (getUTCHours date = 21 \<longrightarrow> angleBetweenClockHands date = pi / 2)"
  using assms by (simp add: angleBetweenClockHands_def)

theorem angle_examples_witness:
  "getUTCMinutes \<lparr>getTime = 1459879200000, getFullYear = 2016, getUTCHours = 18, getMinutes = 0,
      getHours = 18, getUTCMinutes = 0, getSeconds = 0, getMilliseconds = 0, getDate = 5\<rparr> = 0 \<and>
   getMinutes \<lparr>getTime = 1459879200000, getFullYear = 2016, getUTCHours = 18, getMinutes = 0,
      getHours = 18, getUTCMinutes = 0, getSeconds = 0, getMilliseconds = 0, getDate = 5\<rparr> =
   getUTCMinutes \<lparr>getTime = 1459879200000, getFullYear = 2016, getUTCHours = 18, getMinutes = 0,
      getHours = 18, getUTCMinutes = 0, getSeconds = 0, getMilliseconds = 0, getDate = 5\<rparr> \<and>
   getUTCHours \<lparr>getTime = 1459879200000, getFullYear = 2016, getUTCHours = 18, getMinutes = 0,
      getHours = 18, getUTCMinutes = 0, getSeconds = 0, getMilliseconds = 0, getDate = 5\<rparr> = 18 \<and>
   angleBetweenClockHands \<lparr>getTime = 1459879200000, getFullYear = 2016, getUTCHours = 18,
      getMinutes = 0, getHours = 18, getUTCMinutes = 0, getSeconds = 0, getMilliseconds = 0,
      getDate = 5\<rparr> = pi"
proof -
  let ?d = "\<lparr>getTime = 1459879200000, getFullYear = 2016, getUTCHours = 18, getMinutes = 0,
      getHours = 18, getUTCMinutes = 0, getSeconds = 0, getMilliseconds = 0, getDate = 5\<rparr>"
  have u: "getUTCMinutes ?d = 0" by simp
  have m: "getMinutes ?d = getUTCMinutes ?d" by simp
  have h: "getUTCHours ?d = 18" by simp
  from u m h angle_examples [OF u m] show ?thesis by blast
qed

text \<open>
  Claim C10. For every minute within 0..59, a date with UTC hour 12 gives the same angle
  as a date with UTC hour 0, and more generally adding 12 to an hour within 0..11 does not
  change the angle. Reducing the hour from 12 on, not only above 12, gives the same
  function on all hours within 0..23.
\<close>

theorem angle_hour_plus_12:
  fixes a :: "'a date_scheme" and b :: "'b date_scheme"
  assumes "0 \<le> getMinutes a" and "getMinutes a \<le> 59" and "getMinutes b = getMinutes a"
  shows "(getUTCHours a = 0 \<and> getUTCHours b = 12 \<longrightarrow>
      angleBetweenClockHands b = angleBetweenClockHands a) \<and>
    (0 \<le> getUTCHours a \<and> getUTCHours a \<le> 11 \<and> getUTCHours b = getUTCHours a + 12 \<longrightarrow>
      angleBetweenClockHands b = angleBetweenClockHands a) \<and>
    (0 \<le> getUTCHours a \<and> getUTCHours a \<le> 23 \<longrightarrow>
      angle_reducing_from_12 a = angleBetweenClockHands a)"
proof -
  have plus: "angleBetweenClockHands b = angleBetweenClockHands a"
    if h: "0 \<le> getUTCHours a" "getUTCHours a \<le> 11" "getUTCHours b = getUTCHours a + 12"
  proof -
    have "angleBetweenClockHands b = smaller_angle (getUTCHours b) (getMinutes b)"
      using h assms by (intro angle_smaller) simp_all
    also have "\<dots> = smaller_angle (getUTCHours a) (getMinutes a)"
      by (simp add: h(3) assms(3) smaller_angle_plus_12)
    also have "\<dots> = angleBetweenClockHands a"
      using h assms by (intro angle_smaller [symmetric]) simp_all
    finally show ?thesis .
  qed
  have noon: "angleBetweenClockHands b = angleBetweenClockHands a"
    if "getUTCHours a = 0" "getUTCHours b = 12"
    using that by (intro plus) simp_all
  have red: "angle_reducing_from_12 a = angleBetweenClockHands a"
    if h: "0 \<le> getUTCHours a" "getUTCHours a \<le> 23"
    using angle_reducing_smaller [OF h assms(1,2)] angle_smaller [OF h assms(1,2)] by simp
  show ?thesis using plus noon red by blast
qed

theorem angle_hour_plus_12_witness:
  "0 \<le> getMinutes \<lparr>getTime = 1459817100000, getFullYear = 2016, getUTCHours = 0, getMinutes = 45\<rparr> \<and>
   getMinutes \<lparr>getTime = 1459817100000, getFullYear = 2016, getUTCHours = 0, getMinutes = 45\<rparr> \<le> 59 \<and>
   getMinutes \<lparr>getTime = 1459860300000, getFullYear = 2016, getUTCHours = 12, getMinutes = 45\<rparr> =
   getMinutes \<lparr>getTime = 1459817100000, getFullYear = 2016, getUTCHours = 0, getMinutes = 45\<rparr> \<and>
   getUTCHours \<lparr>getTime = 1459817100000, getFullYear = 2016, getUTCHours = 0, getMinutes = 45\<rparr> = 0 \<and>
   getUTCHours \<lparr>getTime = 1459860300000, getFullYear = 2016, getUTCHours = 12, getMinutes = 45\<rparr> = 12 \<and>
   angleBetweenClockHands \<lparr>getTime = 1459860300000, getFullYear = 2016, getUTCHours = 12, getMinutes = 45\<rparr> =
   angleBetweenClockHands \<lparr>getTime = 1459817100000, getFullYear = 2016, getUTCHours = 0, getMinutes = 45\<rparr>"
proof -
  let ?a = "\<lparr>getTime = 1459817100000, getFullYear = 2016, getUTCHours = 0, getMinutes = 45\<rparr>"
  let ?b = "\<lparr>getTime = 1459860300000, getFullYear = 2016, getUTCHours = 12, getMinutes = 45\<rparr>"
  have m: "0 \<le> getMinutes ?a" "getMinutes ?a \<le> 59" "getMinutes ?b = getMinutes ?a" by simp_all
  have h: "getUTCHours ?a = 0" "getUTCHours ?b = 12" by simp_all
  from m h angle_hour_plus_12 [OF m] show ?thesis by blast
qed

end
